theory Spec2Isabelle
  imports Complex_Main "HOL-Library.Sublist"
begin

section \<open>Python strings, restricted to ASCII text\<close>

text \<open>
  A Python \<open>str\<close> is modelled as a \<open>string\<close> whose characters are ASCII code points.
  The case conversions and the whitespace class below are the ASCII part of what
  \<open>str.lower\<close>, \<open>str.upper\<close>, \<open>str.title\<close>, \<open>str.strip\<close> and the regular expression
  class \<open>\s\<close> do; characters outside these tables are left unchanged. A null cell of a
  table (\<open>None\<close> or \<open>NaN\<close>, what \<open>pd.isna\<close> accepts) is \<open>None\<close> of an option type.
\<close>

definition ascii_uppercase :: string where
  "ascii_uppercase = ''ABCDEFGHIJKLMNOPQRSTUVWXYZ''"

definition ascii_lowercase :: string where
  "ascii_lowercase = ''abcdefghijklmnopqrstuvwxyz''"

definition ascii_digits :: string where
  "ascii_digits = ''0123456789''"

definition ascii_whitespace :: string where
  "ascii_whitespace =
     [CHR 0x09, CHR 0x0A, CHR 0x0B, CHR 0x0C, CHR 0x0D,
      CHR 0x1C, CHR 0x1D, CHR 0x1E, CHR 0x1F, CHR 0x20]"

definition newline :: char where
  "newline = CHR 0x0A"

definition is_upper :: "char \<Rightarrow> bool" where
  "is_upper c = (c \<in> set ascii_uppercase)"

definition is_lower :: "char \<Rightarrow> bool" where
  "is_lower c = (c \<in> set ascii_lowercase)"

definition is_digit :: "char \<Rightarrow> bool" where
  "is_digit c = (c \<in> set ascii_digits)"

definition is_space :: "char \<Rightarrow> bool" where
  "is_space c = (c \<in> set ascii_whitespace)"

definition lower_char :: "char \<Rightarrow> char" where
  "lower_char c =
     (case map_of (zip ascii_uppercase ascii_lowercase) c of Some d \<Rightarrow> d | None \<Rightarrow> c)"

definition upper_char :: "char \<Rightarrow> char" where
  "upper_char c =
     (case map_of (zip ascii_lowercase ascii_uppercase) c of Some d \<Rightarrow> d | None \<Rightarrow> c)"

text \<open>\<open>s.lower()\<close> and \<open>s.upper()\<close>.\<close>

definition lower :: "string \<Rightarrow> string" where
  "lower s = map lower_char s"

definition upper :: "string \<Rightarrow> string" where
  "upper s = map upper_char s"

text \<open>
  \<open>s.title()\<close>: a letter that follows a letter is lower-cased, any other letter is
  upper-cased. The flag is CPython's \<open>previous_is_cased\<close>.
\<close>

fun title_from :: "bool \<Rightarrow> string \<Rightarrow> string" where
  "title_from previous_is_cased [] = []"
| "title_from previous_is_cased (c # cs) =
     (if previous_is_cased then lower_char c else upper_char c)
       # title_from (is_upper c \<or> is_lower c) cs"

definition title :: "string \<Rightarrow> string" where
  "title s = title_from False s"

text \<open>\<open>s.strip()\<close>: leading and trailing whitespace removed.\<close>

definition strip :: "string \<Rightarrow> string" where
  "strip s = rev (dropWhile is_space (rev (dropWhile is_space s)))"

text \<open>\<open>w in s\<close> for strings: \<open>w\<close> occurs in \<open>s\<close> as a contiguous substring.\<close>

fun str_in :: "string \<Rightarrow> string \<Rightarrow> bool" where
  "str_in w [] = (w = [])"
| "str_in w (c # cs) = (prefix w (c # cs) \<or> str_in w cs)"

section \<open>Address cleaning\<close>

text \<open>
  \<open>re.sub(r"apt.*|\#.*|.*nh,", "", x)\<close>. The dot matches every character but the
  newline, and no alternative matches the empty string. \<open>rest_of_line\<close> is what is left
  after a greedy \<open>.*\<close>. \<open>dotstar_nh k xs\<close> is the backtracking of \<open>.*nh,\<close>: the \<open>.*\<close>
  first takes the \<open>k\<close> characters up to the end of the line and gives them back one at
  a time until \<open>nh,\<close> follows. \<open>match_apt xs\<close> tries the three alternatives in order at
  the start of \<open>xs\<close> and returns the text after the match.
\<close>

definition rest_of_line :: "string \<Rightarrow> string" where
  "rest_of_line xs = dropWhile (\<lambda>c. c \<noteq> newline) xs"

fun dotstar_nh :: "nat \<Rightarrow> string \<Rightarrow> string option" where
  "dotstar_nh 0 xs = (if prefix ''nh,'' xs then Some (drop 3 xs) else None)"
| "dotstar_nh (Suc k) xs =
     (if prefix ''nh,'' (drop (Suc k) xs) then Some (drop (Suc k + 3) xs)
      else dotstar_nh k xs)"

definition match_apt :: "string \<Rightarrow> string option" where
  "match_apt xs =
     (if prefix ''apt'' xs then Some (rest_of_line (drop 3 xs))
      else if prefix ''#'' xs then Some (rest_of_line (drop 1 xs))
      else dotstar_nh (length (takeWhile (\<lambda>c. c \<noteq> newline) xs)) xs)"

lemma prefix_drop_length: "prefix (a # w) (drop n xs) \<Longrightarrow> n < length xs"
  by (cases "n < length xs") auto

lemma dotstar_nh_shorter: "dotstar_nh k xs = Some r \<Longrightarrow> length r < length xs"
proof (induction k)
  case 0
  then show ?case
    using prefix_drop_length [of "CHR ''n''" "''h,''" 0 xs] by (auto split: if_splits)
next
  case (Suc k)
  then show ?case
    using prefix_drop_length [of "CHR ''n''" "''h,''" "Suc k" xs] by (auto split: if_splits)
qed

lemma rest_of_line_length: "length (rest_of_line xs) \<le> length xs"
  by (simp add: rest_of_line_def length_dropWhile_le)

lemma match_apt_shorter: "match_apt xs = Some r \<Longrightarrow> length r < length xs"
proof -
  assume m: "match_apt xs = Some r"
  have a: "prefix ''apt'' xs \<Longrightarrow> length (rest_of_line (drop 3 xs)) < length xs"
    using rest_of_line_length [of "drop 3 xs"] by (auto simp: prefix_def)
  have b: "prefix ''#'' xs \<Longrightarrow> length (rest_of_line (drop 1 xs)) < length xs"
    using rest_of_line_length [of "drop 1 xs"] by (auto simp: prefix_def)
  show ?thesis
    using m a b dotstar_nh_shorter by (auto simp: match_apt_def split: if_splits)
qed

text \<open>
  The substitution scans from the left: where an alternative matches, the match is
  deleted and the scan goes on after it; elsewhere the character is kept.
\<close>

function sub_apt :: "string \<Rightarrow> string" where
  "sub_apt [] = []"
| "sub_apt (c # cs) =
     (case match_apt (c # cs) of
        Some r \<Rightarrow> sub_apt r
      | None \<Rightarrow> c # sub_apt cs)"
  by pat_completeness auto
termination
  by (relation "measure length") (auto dest: match_apt_shorter)

text \<open>\<open>re.sub(r"[^a-zA-Z0-9.\s]", "", x)\<close>: the characters that stay.\<close>

definition keep_char :: "char \<Rightarrow> bool" where
  "keep_char c = (is_lower c \<or> is_upper c \<or> is_digit c \<or> c = CHR ''.'' \<or> is_space c)"

definition remove_apartment_info :: "string \<Rightarrow> string" where
  "remove_apartment_info x =
     (let result1 = sub_apt x;
          result2 = filter keep_char result1
      in result2)"

definition clean_address :: "string option \<Rightarrow> string option" where
  "clean_address street =
     (case street of
        None \<Rightarrow> None
      | Some st \<Rightarrow>
          (let s = strip (lower st) in
           if str_in ''unk'' s \<or> str_in ''n/a'' s \<or> s = ''same'' \<or> s = ''none''
           then None
           else Some (remove_apartment_info s)))"

section \<open>Building the address of a record\<close>

text \<open>
  The address columns of a row of the case table; every cell holds text or is null.
\<close>

record row =
  incident_street :: "string option"
  incident_city :: "string option"
  incident_zip :: "string option"
  residence_city :: "string option"
  death_street :: "string option"
  death_city :: "string option"
  death_state :: "string option"
  death_zip :: "string option"

text \<open>
  The exceptions of the module: the two raised by hand, and the \<open>AttributeError\<close> of a
  string method called on a null cell.
\<close>

datatype error =
  ValueError
| Exception
| AttributeError

text \<open>A string method applied to a cell: it raises on a null cell.\<close>

definition str_method :: "(string \<Rightarrow> string) \<Rightarrow> string option \<Rightarrow> error + string" where
  "str_method f cell = (case cell of None \<Rightarrow> Inl AttributeError | Some s \<Rightarrow> Inr (f s))"

text \<open>\<open>x if x else ''\<close> inside the format string: null and the empty string give \<open>''\<close>.\<close>

definition or_empty :: "string option \<Rightarrow> string" where
  "or_empty x = (case x of None \<Rightarrow> [] | Some s \<Rightarrow> (if s = [] then [] else s))"

definition city_sub :: "'a row_scheme \<Rightarrow> string \<times> bool" where
  "city_sub r =
     (case incident_city r of
        Some c \<Rightarrow> (strip (title c), False)
      | None \<Rightarrow>
          (case residence_city r of
             Some c \<Rightarrow> (strip (title c), True)
           | None \<Rightarrow> ([], False)))"

definition create_address :: "'a row_scheme \<Rightarrow> string \<Rightarrow> error + (string \<times> bool)" where
  "create_address r flag =
     (if flag = ''incident'' then
        (let street = (if incident_street r \<noteq> None then clean_address (incident_street r)
                       else Some []);
             (city, subbed) = city_sub r;
             zip_code = (case incident_zip r of None \<Rightarrow> [] | Some z \<Rightarrow> z);
             address = strip (upper (or_empty street @ '' '' @ or_empty (Some city) @ '' ''
                                      @ or_empty (Some zip_code)))
         in Inr (address, subbed))
      else if flag = ''death'' then
        (let street = (if death_street r \<noteq> None then clean_address (death_street r)
                       else Some [])
         in case str_method (\<lambda>s. strip (title s)) (death_city r) of
              Inl e \<Rightarrow> Inl e
            | Inr city \<Rightarrow>
                (let state = (case death_state r of
                                Some s \<Rightarrow> strip (title s)
                              | None \<Rightarrow> []);
                     zip_code = (case death_zip r of None \<Rightarrow> [] | Some z \<Rightarrow> z);
                     address = strip (upper (or_empty street @ '' '' @ or_empty (Some city)
                                 @ '' '' @ or_empty (Some state) @ '' ''
                                 @ or_empty (Some zip_code)))
                 in Inr (address, False)))
      else Inl ValueError)"

section \<open>Querying the geocoding provider\<close>

text \<open>
  The provider (\<open>arcgis.geocoding.geocode\<close>, called with the fixed search extent and
  location type) is a parameter: a function from the query to its ranked candidates.
  The numbers it returns are of an arbitrary type \<open>'n\<close>; they are only passed on.
\<close>

record 'n location =
  loc_x :: "'n option"
  loc_y :: "'n option"

record 'n candidate =
  cand_address :: "string option"
  cand_location :: "'n location"
  cand_score :: "'n option"

text \<open>
  The dictionary appended for each address, with its keys \<open>address\<close>, \<open>latitude\<close>,
  \<open>longitude\<close> and \<open>score\<close>.
\<close>

record 'n geo_data =
  gd_address :: "string option"
  gd_latitude :: "'n option"
  gd_longitude :: "'n option"
  gd_score :: "'n option"

text \<open>
  The loop of \<open>run_geocoding\<close>, with its state made explicit: the \<open>results\<close> list and
  the queries sent to the provider so far.
\<close>

fun run_geocoding_loop ::
  "(string \<Rightarrow> 'n candidate list) \<Rightarrow> string option list
     \<Rightarrow> 'n geo_data list \<times> string list \<Rightarrow> 'n geo_data list \<times> string list" where
  "run_geocoding_loop geocode [] (results, calls) = (results, calls)"
| "run_geocoding_loop geocode (address # rest) (results, calls) =
     (if address = None \<or> str_in ''unknown'' (the address) then
        run_geocoding_loop geocode rest
          (results @ [\<lparr>gd_address = address, gd_latitude = None, gd_longitude = None,
                       gd_score = None\<rparr>], calls)
      else
        (let geocoded_info = geocode (the address);
             calls' = calls @ [the address]
         in case geocoded_info of
              best_result # _ \<Rightarrow>
                run_geocoding_loop geocode rest
                  (results @ [\<lparr>gd_address = cand_address best_result,
                               gd_latitude = loc_y (cand_location best_result),
                               gd_longitude = loc_x (cand_location best_result),
                               gd_score = cand_score best_result\<rparr>], calls')
            | [] \<Rightarrow>
                run_geocoding_loop geocode rest
                  (results @ [\<lparr>gd_address = address, gd_latitude = None,
                               gd_longitude = None, gd_score = None\<rparr>], calls')))"

definition run_geocoding ::
  "(string \<Rightarrow> 'n candidate list) \<Rightarrow> string option list
     \<Rightarrow> 'n geo_data list \<times> string list" where
  "run_geocoding geocode addresses = run_geocoding_loop geocode addresses ([], [])"

section \<open>Reconciling the geocoded results with the case table\<close>

text \<open>
  A row of the case table: its identifier, the raw coordinates and all the other
  columns taken together. A row of the geocoded table has the four \<open>geocoded_\<close> columns
  besides; a row of the result has \<open>recovered\<close> and the final coordinates as well.
\<close>

record ('k, 'n, 'o) case_row =
  casenumber :: 'k
  latitude :: "'n option"
  longitude :: "'n option"
  other_columns :: 'o

record ('k, 'n, 'o) coded_row = "('k, 'n, 'o) case_row" +
  geocoded_latitude :: "'n option"
  geocoded_longitude :: "'n option"
  geocoded_score :: "'n option"
  geocoded_address :: "string option"

record ('k, 'n, 'o) recovered_row = "('k, 'n, 'o) coded_row" +
  recovered :: int
  final_latitude :: "'n option"
  final_longitude :: "'n option"

definition composite_lat_long ::
  "('k, 'n, 'o, 'z) coded_row_scheme \<Rightarrow> string \<Rightarrow> error + 'n option" where
  "composite_lat_long r toggle =
     (if toggle = ''lat'' then
        (if latitude r \<noteq> None then Inr (latitude r)
         else if geocoded_latitude r \<noteq> None then Inr (geocoded_latitude r)
         else Inr None)
      else if toggle = ''long'' then
        (if longitude r \<noteq> None then Inr (longitude r)
         else if geocoded_longitude r \<noteq> None then Inr (geocoded_longitude r)
         else Inr None)
      else Inl Exception)"

text \<open>
  \<open>pd.merge(left, right, on="casenumber", how="left")\<close>: every left row, in order,
  joined with each right row of the same key, or once with null cells when the key has
  no right row. Only the key and the four \<open>geocoded_\<close> columns of the right table are
  read, which is the column selection of the source.
\<close>

definition join_row ::
  "('k, 'n, 'o) case_row \<Rightarrow> 'n option \<Rightarrow> 'n option \<Rightarrow> 'n option \<Rightarrow> string option
     \<Rightarrow> ('k, 'n, 'o) coded_row" where
  "join_row l glat glong gscore gaddr =
     \<lparr>casenumber = casenumber l, latitude = latitude l, longitude = longitude l,
      other_columns = other_columns l,
      geocoded_latitude = glat, geocoded_longitude = glong,
      geocoded_score = gscore, geocoded_address = gaddr\<rparr>"

definition merge_left ::
  "('k, 'n, 'o) case_row list \<Rightarrow> ('k, 'n, 'p, 'z) coded_row_scheme list
     \<Rightarrow> ('k, 'n, 'o) coded_row list" where
  "merge_left left right =
     concat (map (\<lambda>l.
       case filter (\<lambda>r. casenumber r = casenumber l) right of
         [] \<Rightarrow> [join_row l None None None None]
       | ms \<Rightarrow> map (\<lambda>r. join_row l (geocoded_latitude r) (geocoded_longitude r)
                        (geocoded_score r) (geocoded_address r)) ms) left)"

text \<open>\<open>df.apply(f, axis=1)\<close>: \<open>f\<close> on every row in order; the first exception ends it.\<close>

fun apply_rows :: "('a \<Rightarrow> error + 'b) \<Rightarrow> 'a list \<Rightarrow> error + 'b list" where
  "apply_rows f [] = Inr []"
| "apply_rows f (r # rs) =
     (case f r of
        Inl e \<Rightarrow> Inl e
      | Inr v \<Rightarrow> (case apply_rows f rs of Inl e \<Rightarrow> Inl e | Inr vs \<Rightarrow> Inr (v # vs)))"

definition add_columns ::
  "('k, 'n, 'o) coded_row \<Rightarrow> int \<Rightarrow> 'n option \<Rightarrow> 'n option \<Rightarrow> ('k, 'n, 'o) recovered_row" where
  "add_columns r rec flat flong =
     \<lparr>casenumber = casenumber r, latitude = latitude r, longitude = longitude r,
      other_columns = other_columns r,
      geocoded_latitude = geocoded_latitude r, geocoded_longitude = geocoded_longitude r,
      geocoded_score = geocoded_score r, geocoded_address = geocoded_address r,
      recovered = rec, final_latitude = flat, final_longitude = flong\<rparr>"

definition combine_geo_results ::
  "('k, 'n, 'p, 'z) coded_row_scheme list \<Rightarrow> ('k, 'n, 'o) case_row list
     \<Rightarrow> error + ('k, 'n, 'o) recovered_row list" where
  "combine_geo_results coded_df original_df =
     (let df = merge_left original_df coded_df;
          recovered_col = map (\<lambda>r. if geocoded_score r \<noteq> None then 1 else 0) df
      in case apply_rows (\<lambda>r. composite_lat_long r ''lat'') df of
           Inl e \<Rightarrow> Inl e
         | Inr final_lat \<Rightarrow>
             (case apply_rows (\<lambda>r. composite_lat_long r ''long'') df of
                Inl e \<Rightarrow> Inl e
              | Inr final_long \<Rightarrow>
                  Inr (map (\<lambda>(r, rec, flat, flong). add_columns r rec flat flong)
                        (zip df (zip recovered_col (zip final_lat final_long))))))"

section \<open>Keyword classification\<close>

text \<open>
  Modelled from the spec: \<open>search_handler\<close> of the module \<open>geocoding.drug_extract_utils\<close>,
  which the script \<open>drug_extraction.py\<close> calls on every narrative cell and which is not
  among the source files. The spec: true iff the lower-cased text contains at least one
  term as a substring; null text yields false.
\<close>

definition search_handler :: "string option \<Rightarrow> string list \<Rightarrow> bool" where
  "search_handler text search_words =
     (case text of
        None \<Rightarrow> False
      | Some t \<Rightarrow> (\<exists>w \<in> set search_words. str_in w (lower t)))"

section \<open>Example records and tables\<close>

text \<open>The record of the end-to-end example; its death columns are all null.\<close>

definition example_row :: row where
  "example_row =
     \<lparr>incident_street = Some ''123 Main St Apt #4B'', incident_city = None,
      incident_zip = Some ''65201'', residence_city = Some ''columbia'',
      death_street = None, death_city = None, death_state = None, death_zip = None\<rparr>"

text \<open>
  A case table of two rows and the geocoded table of its first row. Case \<open>A1\<close> has a raw
  latitude only and was geocoded with score 91; case \<open>A2\<close> has no coordinates and is not
  in the geocoded table. In \<open>example_unscored\<close> the provider's coordinates of \<open>A1\<close> come
  without a score.
\<close>

definition example_cases :: "(string, real, string) case_row list" where
  "example_cases =
     [\<lparr>casenumber = ''A1'', latitude = Some 38.95, longitude = None,
       other_columns = ''first''\<rparr>,
      \<lparr>casenumber = ''A2'', latitude = None, longitude = None,
       other_columns = ''second''\<rparr>]"

definition example_coded :: "(string, real, string) coded_row list" where
  "example_coded =
     [\<lparr>casenumber = ''A1'', latitude = Some 38.95, longitude = None,
       other_columns = ''first'',
       geocoded_latitude = Some 38.90, geocoded_longitude = Some (- 92.33),
       geocoded_score = Some 91, geocoded_address = Some ''123 MAIN ST''\<rparr>]"

definition example_unscored :: "(string, real, string) coded_row list" where
  "example_unscored =
     [\<lparr>casenumber = ''A1'', latitude = Some 38.95, longitude = None,
       other_columns = ''first'',
       geocoded_latitude = Some 38.90, geocoded_longitude = Some (- 92.33),
       geocoded_score = None, geocoded_address = Some ''123 MAIN ST''\<rparr>]"

text \<open>
  Two providers: one that never finds a candidate, and one that knows a single address.
\<close>

definition no_candidates :: "string \<Rightarrow> real candidate list" where
  "no_candidates query = []"

definition example_provider :: "string \<Rightarrow> real candidate list" where
  "example_provider query =
     (if query = ''1 MAIN ST COLUMBIA 65201'' then
        [\<lparr>cand_address = Some ''1 Main St, Columbia, Missouri, 65201'',
          cand_location = \<lparr>loc_x = Some (- 92.33), loc_y = Some 38.90\<rparr>,
          cand_score = Some 91\<rparr>]
      else [])"

section \<open>Evaluation of the examples\<close>

lemmas char_tables =
  ascii_uppercase_def ascii_lowercase_def ascii_digits_def ascii_whitespace_def
  is_upper_def is_lower_def is_digit_def is_space_def lower_char_def upper_char_def
  newline_def

lemmas address_defs =
  create_address_def clean_address_def city_sub_def or_empty_def str_method_def
  remove_apartment_info_def match_apt_def rest_of_line_def keep_char_def
  strip_def lower_def upper_def title_def

section \<open>Facts about the string operations\<close>

text \<open>
  \<open>str_in\<close> is the substring relation.
\<close>

lemma str_in_iff: "str_in w s \<longleftrightarrow> (\<exists>p q. s = p @ w @ q)"
proof (induction s)
  case Nil
  then show ?case by auto
next
  case (Cons c cs)
  show ?case
  proof
    assume "str_in w (c # cs)"
    then consider "prefix w (c # cs)" | "str_in w cs" by auto
    then show "\<exists>p q. c # cs = p @ w @ q"
    proof cases
      case 1
      then obtain q where "c # cs = w @ q" by (auto simp: prefix_def)
      then have "c # cs = [] @ w @ q" by simp
      then show ?thesis by blast
    next
      case 2
      with Cons obtain p q where "cs = p @ w @ q" by blast
      then have "c # cs = (c # p) @ w @ q" by simp
      then show ?thesis by blast
    qed
  next
    assume "\<exists>p q. c # cs = p @ w @ q"
    then obtain p q where pq: "c # cs = p @ w @ q" by blast
    show "str_in w (c # cs)"
    proof (cases p)
      case Nil
      with pq have "prefix w (c # cs)" by (simp add: prefix_def)
      then show ?thesis by simp
    next
      case (Cons a p')
      with pq have "cs = p' @ w @ q" by simp
      with Cons.IH have "str_in w cs" by blast
      then show ?thesis by simp
    qed
  qed
qed

lemma str_in_set: "str_in w s \<Longrightarrow> set w \<subseteq> set s"
  by (auto simp: str_in_iff)

lemma ascii_case_length: "length ascii_uppercase = length ascii_lowercase"
  by (simp add: ascii_uppercase_def ascii_lowercase_def)

lemma lower_char_not_upper: "\<not> is_upper (lower_char c)"
proof (cases "map_of (zip ascii_uppercase ascii_lowercase) c")
  case None
  then have "c \<notin> set ascii_uppercase"
    using map_of_zip_is_None [OF ascii_case_length, of c] by blast
  with None show ?thesis by (simp add: lower_char_def is_upper_def)
next
  case (Some d)
  then have "d \<in> set ascii_lowercase"
    by (meson in_set_zipE map_of_SomeD)
  moreover have "\<forall>x \<in> set ascii_lowercase. x \<notin> set ascii_uppercase"
    by (simp add: ascii_uppercase_def ascii_lowercase_def)
  ultimately show ?thesis using Some by (simp add: lower_char_def is_upper_def)
qed

lemma lower_char_id: "\<not> is_upper c \<Longrightarrow> lower_char c = c"
proof -
  assume "\<not> is_upper c"
  then have "map_of (zip ascii_uppercase ascii_lowercase) c = None"
    using map_of_zip_is_None [OF ascii_case_length, of c] by (simp add: is_upper_def)
  then show ?thesis by (simp add: lower_char_def)
qed

lemma lower_id: "\<forall>c \<in> set s. \<not> is_upper c \<Longrightarrow> lower s = s"
  by (simp add: lower_def lower_char_id map_idI)

lemma set_strip: "set (strip s) \<subseteq> set s"
proof -
  have "set (strip s) = set (dropWhile is_space (rev (dropWhile is_space s)))"
    by (simp add: strip_def)
  also have "\<dots> \<subseteq> set (rev (dropWhile is_space s))"
    by (auto dest: set_dropWhileD)
  also have "\<dots> \<subseteq> set s"
    by (auto dest: set_dropWhileD)
  finally show ?thesis .
qed

text \<open>
  What is left after \<open>strip\<close> neither begins nor ends with whitespace.
\<close>

lemma strip_edges:
  "strip s = [] \<or> (\<not> is_space (hd (strip s)) \<and> \<not> is_space (last (strip s)))"
proof (cases "strip s = []")
  case True
  then show ?thesis by simp
next
  case False
  let ?u = "dropWhile is_space s"
  let ?v = "dropWhile is_space (rev ?u)"
  have s: "strip s = rev ?v" by (simp add: strip_def)
  with False have v: "?v \<noteq> []" by simp
  then have hv: "\<not> is_space (hd ?v)" by (rule hd_dropWhile)
  have u: "?u \<noteq> []"
  proof
    assume e: "?u = []"
    have "?v = []" unfolding e by (simp only: rev.simps dropWhile.simps)
    with v show False by (simp only: not_False_eq_True)
  qed
  then have hu: "\<not> is_space (hd ?u)" by (rule hd_dropWhile)
  have "last ?v = last (rev ?u)"
  proof -
    have "rev ?u = takeWhile is_space (rev ?u) @ ?v" by simp
    then show ?thesis using v by (metis last_appendR)
  qed
  also have "\<dots> = hd ?u" using u by (simp add: last_rev)
  finally have lv: "last ?v = hd ?u" .
  have "hd (strip s) = last ?v" using v by (simp add: s hd_rev)
  moreover have "last (strip s) = hd ?v" using v by (simp add: s last_rev)
  ultimately show ?thesis using hv hu lv by simp
qed

section \<open>Cleaning a street twice\<close>

text \<open>
  Both substitutions only delete characters, and the first one changes nothing in a
  text that has no \<open>apt\<close>, no \<open>#\<close> and no comma.
\<close>

lemma dotstar_nh_suffix: "dotstar_nh k xs = Some r \<Longrightarrow> set r \<subseteq> set xs"
  by (induction k) (auto split: if_splits dest: in_set_dropD)

lemma match_apt_suffix: "match_apt xs = Some r \<Longrightarrow> set r \<subseteq> set xs"
  by (auto simp: match_apt_def rest_of_line_def split: if_splits
      dest: set_dropWhileD in_set_dropD dotstar_nh_suffix)

lemma set_sub_apt: "set (sub_apt xs) \<subseteq> set xs"
proof (induction xs rule: sub_apt.induct)
  case 1
  then show ?case by simp
next
  case (2 c cs)
  show ?case
  proof (cases "match_apt (c # cs)")
    case None
    with "2.IH"(1) show ?thesis by auto
  next
    case (Some r)
    with "2.IH"(2) match_apt_suffix [OF Some] show ?thesis by auto
  qed
qed

lemma dotstar_nh_none: "CHR '','' \<notin> set xs \<Longrightarrow> dotstar_nh k xs = None"
proof (induction k)
  case 0
  then show ?case by (auto simp: prefix_def)
next
  case (Suc k)
  have "prefix ''nh,'' (drop (Suc k) xs) \<Longrightarrow> CHR '','' \<in> set (drop (Suc k) xs)"
    by (auto simp: prefix_def)
  then have "\<not> prefix ''nh,'' (drop (Suc k) xs)"
    using Suc.prems by (auto dest: in_set_dropD)
  with Suc show ?case by simp
qed

lemma sub_apt_id:
  "\<not> str_in ''apt'' xs \<Longrightarrow> CHR ''#'' \<notin> set xs \<Longrightarrow> CHR '','' \<notin> set xs \<Longrightarrow> sub_apt xs = xs"
proof (induction xs)
  case Nil
  then show ?case by simp
next
  case (Cons c cs)
  then have "match_apt (c # cs) = None"
    by (simp add: match_apt_def dotstar_nh_none)
  with Cons show ?case by simp
qed

lemma keep_char_facts:
  "\<not> keep_char (CHR ''#'')" "\<not> keep_char (CHR '','')" "\<not> keep_char (CHR ''/'')"
  by (simp_all add: keep_char_def is_lower_def is_upper_def is_digit_def is_space_def
      ascii_uppercase_def ascii_lowercase_def ascii_digits_def ascii_whitespace_def)

text \<open>
  C2, as amended. A cleaned street that is already trimmed, that contains neither
  \<open>unk\<close> nor \<open>apt\<close> and that is neither \<open>same\<close> nor \<open>none\<close> is left unchanged by a
  second cleaning.
\<close>

theorem clean_address_idempotent_on_trimmed:
  assumes "clean_address (Some s) = Some t"
    and "strip t = t"
    and "\<not> str_in ''unk'' t" and "\<not> str_in ''apt'' t"
    and "t \<noteq> ''same''" and "t \<noteq> ''none''"
  shows "clean_address (Some t) = Some t"
proof -
  let ?s = "strip (lower s)"
  from assms(1) have t: "t = filter keep_char (sub_apt ?s)"
    by (auto simp: clean_address_def remove_apartment_info_def Let_def split: if_splits)
  have keep: "\<forall>c \<in> set t. keep_char c" by (simp add: t)
  have "set t \<subseteq> set (lower s)"
    using set_sub_apt [of ?s] set_strip [of "lower s"] by (auto simp: t)
  then have no_upper: "\<forall>c \<in> set t. \<not> is_upper c"
    by (auto simp: lower_def lower_char_not_upper)
  have hash: "CHR ''#'' \<notin> set t" and comma: "CHR '','' \<notin> set t"
    and slash: "CHR ''/'' \<notin> set t"
    using keep keep_char_facts by blast+
  have na: "\<not> str_in ''n/a'' t"
    using slash str_in_set [of "''n/a''" t] by auto
  have l: "strip (lower t) = t"
    using lower_id [OF no_upper] assms(2) by simp
  have "remove_apartment_info t = t"
    using sub_apt_id [OF assms(4) hash comma] keep
    by (simp add: remove_apartment_info_def filter_id_conv)
  then show ?thesis
    using assms(3,5,6) na by (simp add: clean_address_def l)
qed

theorem clean_address_idempotent_on_trimmed_witness:
  "clean_address (Some ''12 Main St.'') = Some ''12 main st.'' \<and>
   strip ''12 main st.'' = ''12 main st.'' \<and>
   \<not> str_in ''unk'' ''12 main st.'' \<and> \<not> str_in ''apt'' ''12 main st.'' \<and>
   clean_address (Some ''12 main st.'') = Some ''12 main st.''"
proof -
  have a: "clean_address (Some ''12 Main St.'') = Some ''12 main st.''"
    by (simp add: address_defs char_tables)
  have b: "strip ''12 main st.'' = ''12 main st.''"
    by (simp add: strip_def char_tables)
  have c: "\<not> str_in ''unk'' ''12 main st.''" by simp
  have d: "\<not> str_in ''apt'' ''12 main st.''" by simp
  have e: "''12 main st.'' \<noteq> ''same''" "''12 main st.'' \<noteq> ''none''" by simp_all
  show ?thesis
    using a b c d clean_address_idempotent_on_trimmed [OF a b c d e] by simp
qed

text \<open>
  C2 as stated fails: the removal of the apartment text comes after the trimming, so the
  cleaned street of the example ends with the space that stood before \<open>Apt\<close>, and the
  second cleaning trims it.
\<close>

theorem clean_address_twice_counterexample:
  "clean_address (Some ''123 Main St Apt #4B'') = Some ''123 main st '' \<and>
   clean_address (clean_address (Some ''123 Main St Apt #4B'')) = Some ''123 main st'' \<and>
   clean_address (clean_address (Some ''123 Main St Apt #4B''))
     \<noteq> clean_address (Some ''123 Main St Apt #4B'')"
  by (simp add: address_defs char_tables)

text \<open>
  The other conditions are needed as well: deleting a character can produce a sentinel
  or an apartment marker that the second cleaning then acts on.
\<close>

lemma clean_address_twice_sentinel:
  "clean_address (Some ''u-nk'') = Some ''unk'' \<and> clean_address (Some ''unk'') = None"
  by (simp add: address_defs char_tables)

lemma clean_address_twice_apartment:
  "clean_address (Some ''a-pt 3'') = Some ''apt 3'' \<and> clean_address (Some ''apt 3'') = Some []"
  by (simp add: address_defs char_tables)

section \<open>The address builder\<close>

lemma create_address_incident:
  "create_address r ''incident'' =
     Inr (strip (upper (or_empty (if incident_street r \<noteq> None
                                  then clean_address (incident_street r) else Some [])
                        @ '' '' @ fst (city_sub r) @ '' ''
                        @ (case incident_zip r of None \<Rightarrow> [] | Some z \<Rightarrow> z))),
          snd (city_sub r))"
  by (simp add: create_address_def Let_def or_empty_def split: prod.splits)

text \<open>
  C1, as amended. For the record of the example the incident address is
  \<open>123 MAIN ST  COLUMBIA 65201\<close>, with two spaces after \<open>ST\<close>, and the city is a
  substituted one. For every record the incident address is the trimmed upper-case text
  of three slots joined by one space each: the cleaned street, or nothing when the street
  is null or cleaned to null; the title-cased, trimmed incident city, or else residence
  city, or nothing when both are null; the zip code, or nothing when it is null. The flag
  tells whether the residence city stands in for a null incident city. An empty slot
  leaves only its separating space, and the address neither begins nor ends with
  whitespace.
\<close>

theorem create_address_example:
  "create_address example_row ''incident'' = Inr (''123 MAIN ST  COLUMBIA 65201'', True) \<and>
   create_address r ''incident'' =
     Inr (strip (upper (
            (case incident_street r of
               None \<Rightarrow> []
             | Some s \<Rightarrow> (case clean_address (Some s) of None \<Rightarrow> [] | Some t \<Rightarrow> t))
            @ '' '' @
            (case incident_city r of
               Some c \<Rightarrow> strip (title c)
             | None \<Rightarrow> (case residence_city r of Some c \<Rightarrow> strip (title c) | None \<Rightarrow> []))
            @ '' '' @
            (case incident_zip r of None \<Rightarrow> [] | Some z \<Rightarrow> z))),
          incident_city r = None \<and> residence_city r \<noteq> None) \<and>
   (\<forall>a b. create_address r ''incident'' = Inr (a, b) \<longrightarrow>
      a = [] \<or> (\<not> is_space (hd a) \<and> \<not> is_space (last a)))"
proof (intro conjI)
  show "create_address example_row ''incident'' = Inr (''123 MAIN ST  COLUMBIA 65201'', True)"
    by (simp add: example_row_def address_defs char_tables)
next
  have street: "or_empty (if incident_street r \<noteq> None
                           then clean_address (incident_street r) else Some []) =
      (case incident_street r of
         None \<Rightarrow> []
       | Some s \<Rightarrow> (case clean_address (Some s) of None \<Rightarrow> [] | Some t \<Rightarrow> t))"
    by (simp add: or_empty_def split: option.splits)
  have city: "fst (city_sub r) =
      (case incident_city r of
         Some c \<Rightarrow> strip (title c)
       | None \<Rightarrow> (case residence_city r of Some c \<Rightarrow> strip (title c) | None \<Rightarrow> []))"
    by (simp add: city_sub_def split: option.splits)
  have flag: "snd (city_sub r) = (incident_city r = None \<and> residence_city r \<noteq> None)"
    by (simp add: city_sub_def split: option.splits)
  show "create_address r ''incident'' =
     Inr (strip (upper (
            (case incident_street r of
               None \<Rightarrow> []
             | Some s \<Rightarrow> (case clean_address (Some s) of None \<Rightarrow> [] | Some t \<Rightarrow> t))
            @ '' '' @
            (case incident_city r of
               Some c \<Rightarrow> strip (title c)
             | None \<Rightarrow> (case residence_city r of Some c \<Rightarrow> strip (title c) | None \<Rightarrow> []))
            @ '' '' @
            (case incident_zip r of None \<Rightarrow> [] | Some z \<Rightarrow> z))),
          incident_city r = None \<and> residence_city r \<noteq> None)"
    unfolding create_address_incident [of r] street city flag by (rule refl)
next
  show "\<forall>a b. create_address r ''incident'' = Inr (a, b) \<longrightarrow>
      a = [] \<or> (\<not> is_space (hd a) \<and> \<not> is_space (last a))"
    using strip_edges by (auto simp: create_address_incident)
qed

text \<open>
  The example record without its street, without any city, without its zip code, and
  with a street that is cleaned to null: the slot of the missing component is empty and
  its separating space remains inside the address.
\<close>

theorem create_address_example_witness:
  "create_address (example_row\<lparr>incident_street := None\<rparr>) ''incident''
     = Inr (''COLUMBIA 65201'', True) \<and>
   create_address (example_row\<lparr>residence_city := None\<rparr>) ''incident''
     = Inr (''123 MAIN ST   65201'', False) \<and>
   create_address (example_row\<lparr>incident_zip := None\<rparr>) ''incident''
     = Inr (''123 MAIN ST  COLUMBIA'', True) \<and>
   create_address (example_row\<lparr>incident_street := Some ''Unknown''\<rparr>) ''incident''
     = Inr (''COLUMBIA 65201'', True)"
  using create_address_example [of "example_row\<lparr>incident_street := None\<rparr>"]
    create_address_example [of "example_row\<lparr>residence_city := None\<rparr>"]
    create_address_example [of "example_row\<lparr>incident_zip := None\<rparr>"]
    create_address_example [of "example_row\<lparr>incident_street := Some ''Unknown''\<rparr>"]
  by (simp add: example_row_def address_defs char_tables)

text \<open>
  C1 as stated fails: the cleaned street \<open>123 main st \<close> keeps the space that stood
  before the apartment text, so the address has two spaces where the claim has one.
\<close>

theorem create_address_example_counterexample:
  "create_address example_row ''incident'' \<noteq> Inr (''123 MAIN ST COLUMBIA 65201'', True)"
  by (simp add: example_row_def address_defs char_tables)

text \<open>
  C7. In the incident context a record with a city of the incident is never given a
  substituted city: the flag is false and the city segment of the address is the
  title-cased, trimmed incident city. Without an incident city but with a residence city,
  the segment is the title-cased, trimmed residence city and the flag is true. With
  neither, the segment is empty and the flag is false.
\<close>

theorem city_sub_cases:
  "(incident_city r = Some c \<longrightarrow>
      city_sub r = (strip (title c), False) \<and>
      (\<exists>street zip_code. create_address r ''incident'' =
         Inr (strip (upper (street @ '' '' @ strip (title c) @ '' '' @ zip_code)), False))) \<and>
   (incident_city r = None \<and> residence_city r = Some c \<longrightarrow>
      city_sub r = (strip (title c), True) \<and>
      (\<exists>street zip_code. create_address r ''incident'' =
         Inr (strip (upper (street @ '' '' @ strip (title c) @ '' '' @ zip_code)), True))) \<and>
   (incident_city r = None \<and> residence_city r = None \<longrightarrow>
      city_sub r = ([], False) \<and>
      (\<exists>street zip_code. create_address r ''incident'' =
         Inr (strip (upper (street @ '' '' @ [] @ '' '' @ zip_code)), False)))"
proof (intro conjI impI)
  assume "incident_city r = Some c"
  then show c1: "city_sub r = (strip (title c), False)"
    by (simp add: city_sub_def)
  show "\<exists>street zip_code. create_address r ''incident'' =
         Inr (strip (upper (street @ '' '' @ strip (title c) @ '' '' @ zip_code)), False)"
    using create_address_incident [of r] unfolding c1 fst_conv snd_conv by blast
next
  assume "incident_city r = None \<and> residence_city r = Some c"
  then show c2: "city_sub r = (strip (title c), True)"
    by (simp add: city_sub_def)
  show "\<exists>street zip_code. create_address r ''incident'' =
         Inr (strip (upper (street @ '' '' @ strip (title c) @ '' '' @ zip_code)), True)"
    using create_address_incident [of r] unfolding c2 fst_conv snd_conv by blast
next
  assume "incident_city r = None \<and> residence_city r = None"
  then show c3: "city_sub r = ([], False)"
    by (simp add: city_sub_def)
  show "\<exists>street zip_code. create_address r ''incident'' =
         Inr (strip (upper (street @ '' '' @ [] @ '' '' @ zip_code)), False)"
    using create_address_incident [of r] unfolding c3 fst_conv snd_conv by blast
qed

text \<open>
  The three cases at records: the example record with the incident city \<open>st. louis\<close>,
  the example record itself, and the example record without any city.
\<close>

theorem city_sub_cases_witness:
  "city_sub (example_row\<lparr>incident_city := Some ''st. louis''\<rparr>) = (''St. Louis'', False) \<and>
   city_sub example_row = (''Columbia'', True) \<and>
   city_sub (example_row\<lparr>residence_city := None\<rparr>) = ([], False)"
  using city_sub_cases [of "example_row\<lparr>incident_city := Some ''st. louis''\<rparr>" "''st. louis''"]
    city_sub_cases [of example_row "''columbia''"]
    city_sub_cases [of "example_row\<lparr>residence_city := None\<rparr>" "[]"]
  by (simp add: example_row_def strip_def title_def char_tables)

text \<open>
  C8. \<open>create_address\<close> raises its \<open>ValueError\<close> for every flag other than \<open>incident\<close> and
  \<open>death\<close>, whatever the record, and \<open>composite_lat_long\<close> raises its exception for every
  toggle other than \<open>lat\<close> and \<open>long\<close>, whatever the row.
\<close>

theorem invalid_arguments_raise:
  "(flag \<noteq> ''incident'' \<and> flag \<noteq> ''death'' \<longrightarrow> create_address r flag = Inl ValueError) \<and>
   (toggle \<noteq> ''lat'' \<and> toggle \<noteq> ''long'' \<longrightarrow> composite_lat_long c toggle = Inl Exception)"
  by (simp add: create_address_def composite_lat_long_def)

theorem invalid_arguments_raise_witness:
  "create_address example_row ''residence'' = Inl ValueError \<and>
   composite_lat_long (hd example_coded) ''latitude'' = Inl Exception"
  using invalid_arguments_raise [of "''residence''" example_row "''latitude''" "hd example_coded"]
  by simp

text \<open>
  C3, at the record where it fails: the death city of the example record is null, and
  in the death context \<open>create_address\<close> calls \<open>title\<close> on it unguarded, which raises.
\<close>

theorem death_city_null_raises:
  "create_address example_row ''death'' = Inl AttributeError"
  by (simp add: create_address_def example_row_def str_method_def)

section \<open>The geocoding loop\<close>

text \<open>
  The loop appends one result for each address and queries the provider for exactly
  the addresses it does not skip.
\<close>

lemma run_geocoding_loop_eq:
  "run_geocoding_loop geocode addresses (results, calls) =
     (results @ map (\<lambda>a. if a = None \<or> str_in ''unknown'' (the a) then
                            \<lparr>gd_address = a, gd_latitude = None, gd_longitude = None,
                             gd_score = None\<rparr>
                          else (case geocode (the a) of
                                  best_result # _ \<Rightarrow>
                                    \<lparr>gd_address = cand_address best_result,
                                     gd_latitude = loc_y (cand_location best_result),
                                     gd_longitude = loc_x (cand_location best_result),
                                     gd_score = cand_score best_result\<rparr>
                                | [] \<Rightarrow> \<lparr>gd_address = a, gd_latitude = None,
                                         gd_longitude = None, gd_score = None\<rparr>)) addresses,
      calls @ map the (filter (\<lambda>a. \<not> (a = None \<or> str_in ''unknown'' (the a))) addresses))"
proof (induction addresses arbitrary: results calls)
  case Nil
  then show ?case by simp
next
  case (Cons a addresses)
  show ?case
  proof (cases "a = None \<or> str_in ''unknown'' (the a)")
    case True
    then show ?thesis by (simp add: Cons.IH)
  next
    case False
    then show ?thesis by (cases "geocode (the a)") (auto simp: Cons.IH Let_def)
  qed
qed

text \<open>
  C6, as amended. An address that is null or contains \<open>unknown\<close> is not sent to the
  provider, and its result has a null latitude, longitude and score and the input address
  itself in the address field, which is null only for a null input. An address for which
  the provider has no candidate gets the same result. The queries sent are the other
  addresses, in order.
\<close>

theorem run_geocoding_skips:
  "length (fst (run_geocoding geocode addresses)) = length addresses \<and>
   snd (run_geocoding geocode addresses) =
     map the (filter (\<lambda>a. a \<noteq> None \<and> \<not> str_in ''unknown'' (the a)) addresses) \<and>
   (\<forall>q \<in> set (snd (run_geocoding geocode addresses)). \<not> str_in ''unknown'' q) \<and>
   (\<forall>i < length addresses.
      addresses ! i = None \<or> str_in ''unknown'' (the (addresses ! i))
        \<or> geocode (the (addresses ! i)) = [] \<longrightarrow>
      fst (run_geocoding geocode addresses) ! i =
        \<lparr>gd_address = addresses ! i, gd_latitude = None, gd_longitude = None,
         gd_score = None\<rparr>)"
proof (intro conjI)
  show "length (fst (run_geocoding geocode addresses)) = length addresses"
    by (simp add: run_geocoding_def run_geocoding_loop_eq)
  show c: "snd (run_geocoding geocode addresses) =
     map the (filter (\<lambda>a. a \<noteq> None \<and> \<not> str_in ''unknown'' (the a)) addresses)"
    by (simp add: run_geocoding_def run_geocoding_loop_eq)
  show "\<forall>q \<in> set (snd (run_geocoding geocode addresses)). \<not> str_in ''unknown'' q"
    unfolding c by auto
  show "\<forall>i < length addresses.
      addresses ! i = None \<or> str_in ''unknown'' (the (addresses ! i))
        \<or> geocode (the (addresses ! i)) = [] \<longrightarrow>
      fst (run_geocoding geocode addresses) ! i =
        \<lparr>gd_address = addresses ! i, gd_latitude = None, gd_longitude = None,
         gd_score = None\<rparr>"
    by (auto simp: run_geocoding_def run_geocoding_loop_eq)
qed

theorem run_geocoding_skips_witness:
  "run_geocoding example_provider
     [None, Some ''unknown'', Some ''1 MAIN ST COLUMBIA 65201'', Some ''9 ELM ST''] =
     ([\<lparr>gd_address = None, gd_latitude = None, gd_longitude = None, gd_score = None\<rparr>,
       \<lparr>gd_address = Some ''unknown'', gd_latitude = None, gd_longitude = None,
        gd_score = None\<rparr>,
       \<lparr>gd_address = Some ''1 Main St, Columbia, Missouri, 65201'',
        gd_latitude = Some 38.90, gd_longitude = Some (- 92.33), gd_score = Some 91\<rparr>,
       \<lparr>gd_address = Some ''9 ELM ST'', gd_latitude = None, gd_longitude = None,
        gd_score = None\<rparr>],
      [''1 MAIN ST COLUMBIA 65201'', ''9 ELM ST''])"
  using run_geocoding_skips [of example_provider
      "[None, Some ''unknown'', Some ''1 MAIN ST COLUMBIA 65201'', Some ''9 ELM ST'']"]
  by (simp add: run_geocoding_def example_provider_def)

text \<open>
  C6 as stated fails: the address field of the result of a skipped or unmatched address
  is the input address, not null.
\<close>

theorem run_geocoding_skips_counterexample:
  "fst (run_geocoding no_candidates [Some ''unknown address'', Some ''9 ELM ST'']) =
     [\<lparr>gd_address = Some ''unknown address'', gd_latitude = None, gd_longitude = None,
       gd_score = None\<rparr>,
      \<lparr>gd_address = Some ''9 ELM ST'', gd_latitude = None, gd_longitude = None,
       gd_score = None\<rparr>] \<and>
   gd_address (hd (fst (run_geocoding no_candidates
      [Some ''unknown address'', Some ''9 ELM ST'']))) \<noteq> None"
  by (simp add: run_geocoding_def no_candidates_def)

section \<open>The reconciliation\<close>

lemma apply_rows_total:
  "(\<And>r. r \<in> set rows \<Longrightarrow> f r = Inr (g r)) \<Longrightarrow> apply_rows f rows = Inr (map g rows)"
  by (induction rows) auto

lemma composite_lat:
  "composite_lat_long r ''lat'' =
     Inr (if latitude r \<noteq> None then latitude r else geocoded_latitude r)"
  by (auto simp: composite_lat_long_def)

lemma composite_long:
  "composite_lat_long r ''long'' =
     Inr (if longitude r \<noteq> None then longitude r else geocoded_longitude r)"
  by (auto simp: composite_lat_long_def)

lemma zip_map_same: "zip (map f xs) (map g xs) = map (\<lambda>x. (f x, g x)) xs"
  by (induction xs) auto

lemma zip_id_map: "zip xs (map g xs) = map (\<lambda>x. (x, g x)) xs"
  by (induction xs) auto

text \<open>The reconciliation never raises, and computes the new columns row by row.\<close>

lemma combine_geo_results_eq:
  "combine_geo_results coded_df original_df =
     Inr (map (\<lambda>r. add_columns r (if geocoded_score r \<noteq> None then 1 else 0)
                  (if latitude r \<noteq> None then latitude r else geocoded_latitude r)
                  (if longitude r \<noteq> None then longitude r else geocoded_longitude r))
            (merge_left original_df coded_df))"
proof -
  let ?df = "merge_left original_df coded_df"
  have a: "apply_rows (\<lambda>r. composite_lat_long r ''lat'') ?df =
      Inr (map (\<lambda>r. if latitude r \<noteq> None then latitude r else geocoded_latitude r) ?df)"
    by (rule apply_rows_total) (rule composite_lat)
  have b: "apply_rows (\<lambda>r. composite_lat_long r ''long'') ?df =
      Inr (map (\<lambda>r. if longitude r \<noteq> None then longitude r else geocoded_longitude r) ?df)"
    by (rule apply_rows_total) (rule composite_long)
  show ?thesis
    unfolding combine_geo_results_def Let_def a b
    by (simp add: zip_map_same zip_id_map)
qed

text \<open>
  C4. After the reconciliation, \<open>recovered\<close> of a row is 1 exactly when its
  \<open>geocoded_score\<close> is not null, and 0 exactly when it is null; the coordinates play no
  part in it.
\<close>

theorem recovered_iff_score:
  "\<exists>out. combine_geo_results coded_df original_df = Inr out \<and>
     (\<forall>r \<in> set out. (recovered r = 1 \<longleftrightarrow> geocoded_score r \<noteq> None) \<and>
                      (recovered r = 0 \<longleftrightarrow> geocoded_score r = None))"
  by (auto simp: combine_geo_results_eq add_columns_def)

text \<open>
  With the score 91 the first case is recovered; with the same geocoded coordinates and
  no score it is not.
\<close>

theorem recovered_iff_score_witness:
  "(\<exists>out. combine_geo_results example_coded example_cases = Inr out \<and>
      map recovered out = [1, 0] \<and> map geocoded_score out = [Some 91, None]) \<and>
   (\<exists>out. combine_geo_results example_unscored example_cases = Inr out \<and>
      map recovered out = [0, 0] \<and> map geocoded_score out = [None, None] \<and>
      map geocoded_latitude out = [Some 38.90, None] \<and>
      map geocoded_longitude out = [Some (- 92.33), None])"
  using recovered_iff_score [of example_coded example_cases]
    recovered_iff_score [of example_unscored example_cases]
  by (simp add: combine_geo_results_eq merge_left_def join_row_def add_columns_def
      example_coded_def example_unscored_def example_cases_def)

text \<open>
  C5. The final latitude of a row is its raw latitude when that is not null, otherwise
  its geocoded latitude when that is not null, otherwise null; the final longitude
  follows the same rule on the longitudes, on its own.
\<close>

theorem final_coordinates_first_non_null:
  "\<exists>out. combine_geo_results coded_df original_df = Inr out \<and>
     (\<forall>r \<in> set out.
        final_latitude r =
          (case latitude r of Some v \<Rightarrow> Some v
           | None \<Rightarrow> (case geocoded_latitude r of Some g \<Rightarrow> Some g | None \<Rightarrow> None)) \<and>
        final_longitude r =
          (case longitude r of Some v \<Rightarrow> Some v
           | None \<Rightarrow> (case geocoded_longitude r of Some g \<Rightarrow> Some g | None \<Rightarrow> None)))"
  by (auto simp: combine_geo_results_eq add_columns_def split: option.splits)

text \<open>
  The first case keeps its raw latitude and takes the geocoded longitude: the two final
  coordinates come from different sources. The second case has neither.
\<close>

theorem final_coordinates_first_non_null_witness:
  "\<exists>out. combine_geo_results example_coded example_cases = Inr out \<and>
     map final_latitude out = [Some 38.95, None] \<and>
     map final_longitude out = [Some (- 92.33), None] \<and>
     map geocoded_latitude out = [Some 38.90, None]"
  using final_coordinates_first_non_null [of example_coded example_cases]
  by (simp add: combine_geo_results_eq merge_left_def join_row_def add_columns_def
      example_coded_def example_cases_def)





section \<open>The keyword classifier\<close>

text \<open>
  C9. \<open>search_handler\<close> is false for a null text and for a text whose lower-cased
  form contains none of the terms, and it is true exactly when the lower-cased text
  contains at least one term as a substring.
\<close>

theorem search_handler_spec:
  "search_handler None search_words = False \<and>
   (search_handler (Some t) search_words
      \<longleftrightarrow> (\<exists>w \<in> set search_words. \<exists>p q. lower t = p @ w @ q)) \<and>
   ((\<forall>w \<in> set search_words. \<not> (\<exists>p q. lower t = p @ w @ q))
      \<longrightarrow> search_handler (Some t) search_words = False)"
  by (simp add: search_handler_def str_in_iff)

theorem search_handler_spec_witness:
  "search_handler (Some ''Death due to FENTANYL and heroin toxicity'')
     [''fentanyl'', ''heroin'', ''oxycodone''] = True \<and>
   search_handler (Some ''Gunshot wound of the chest'')
     [''fentanyl'', ''heroin'', ''oxycodone''] = False \<and>
   search_handler None [''fentanyl'', ''heroin'', ''oxycodone''] = False"
  using search_handler_spec [of "[''fentanyl'', ''heroin'', ''oxycodone'']"
      "''Death due to FENTANYL and heroin toxicity''"]
    search_handler_spec [of "[''fentanyl'', ''heroin'', ''oxycodone'']"
      "''Gunshot wound of the chest''"]
  by (simp add: search_handler_def lower_def char_tables)

end
